theory Spec2Isabelle
  imports Complex_Main
begin

section \<open>Library borrowing engine: data model\<close>

text \<open>
  The transaction routes keep three module-level arrays, \<^verbatim>\<open>transactions\<close>,
  \<^verbatim>\<open>users\<close> and \<^verbatim>\<open>books\<close>, and three handlers
  (\<^verbatim>\<open>POST /borrow\<close>, \<^verbatim>\<open>POST /return\<close>,
  \<^verbatim>\<open>POST /:id/renew\<close>) that read and mutate them. The handlers are modelled
  as functions from the store and the request to a response and the store afterwards.

  Conventions of the model:
  \<^item> A JavaScript \<^verbatim>\<open>Date\<close> is its time value, the milliseconds since the epoch,
    or \<^verbatim>\<open>Invalid Date\<close> (time value NaN).
  \<^item> \<^verbatim>\<open>setDate(getDate() + n)\<close> works on the calendar of the host's local time.
    The host's time zone is a parameter of the model: the function that ECMAScript calls
    \<^verbatim>\<open>LocalTZA\<close>. Nothing is assumed about it.
  \<^item> A JavaScript number that is an amount of money or a count of days is a rational.
    The product \<open>days * 0.50\<close> is exact in binary floating point, and the quotient
    by \<open>86400000\<close> can round across a whole number only for dates more than
    \<open>2 ^ 26\<close> days apart, where the fee is at its cap whichever way it rounds.
  \<^item> The audit stamps \<^verbatim>\<open>createdAt\<close> and \<^verbatim>\<open>updatedAt\<close> are left out;
    no handler reads them.
\<close>

datatype membership = BASIC | PREMIUM | STUDENT

datatype status = BORROWED | RETURNED | OVERDUE

datatype condition = EXCELLENT | GOOD | FAIR | POOR

datatype jsdate = Date int | Invalid_Date

datatype jsnum = Finite rat | NaN

text \<open>
  What a property read on one of the two policy object literals can give: nothing, a
  number stored in the literal, or a value inherited from \<^verbatim>\<open>Object.prototype\<close>
  (a function or an object, never a number).
\<close>

datatype jsval = Undefined | Number int | Inherited string

record book =
  book_id :: string
  book_title :: string
  availableQuantity :: int
  totalQuantity :: int

text \<open>
  \<open>membershipType\<close> and \<open>isActive\<close> are the fields of the user schema (an enum of
  three strings, and a boolean). The handlers pass the name of the membership type to
  the policy helpers, which take any string.
\<close>

record user =
  user_id :: string
  user_name :: string
  membershipType :: membership
  isActive :: bool

record transaction =
  tx_id :: string
  userId :: string
  bookId :: string
  borrowDate :: jsdate
  dueDate :: jsdate
  returnDate :: "jsdate option"
  status :: status
  lateFee :: jsnum
  renewalCount :: nat
  tx_notes :: string
  returnCondition :: "condition option"
  returnNotes :: "string option"

record store =
  transactions :: "transaction list"
  users :: "user list"
  books :: "book list"

text \<open>
  The responses of the handlers that are not a success, each with the status code and
  message the handler sends. \<open>InternalError\<close> is the \<^verbatim>\<open>catch\<close> branch.
\<close>

datatype failure =
    NotFoundBook
  | Unavailable
  | NotFoundMember
  | LimitReached
  | AlreadyBorrowed
  | NotFoundTransaction
  | Forbidden
  | AlreadyReturned
  | NotRenewable
  | RenewalLimitReached
  | Overdue
  | InternalError

fun statusCode :: "failure \<Rightarrow> nat" where
  "statusCode NotFoundBook = 404"
| "statusCode Unavailable = 400"
| "statusCode NotFoundMember = 404"
| "statusCode LimitReached = 400"
| "statusCode AlreadyBorrowed = 400"
| "statusCode NotFoundTransaction = 404"
| "statusCode Forbidden = 403"
| "statusCode AlreadyReturned = 400"
| "statusCode NotRenewable = 400"
| "statusCode RenewalLimitReached = 400"
| "statusCode Overdue = 400"
| "statusCode InternalError = 500"

section \<open>JavaScript helpers\<close>

text \<open>The names every object literal inherits from \<^verbatim>\<open>Object.prototype\<close>.\<close>

definition objectPrototypeProps :: "string list" where
  "objectPrototypeProps =
     [''constructor'', ''__defineGetter__'', ''__defineSetter__'', ''hasOwnProperty'',
      ''__lookupGetter__'', ''__lookupSetter__'', ''isPrototypeOf'',
      ''propertyIsEnumerable'', ''toString'', ''valueOf'', ''__proto__'',
      ''toLocaleString'']"

text \<open>\<^verbatim>\<open>obj[key]\<close> on an object literal with numeric own properties.\<close>

definition getProperty :: "(string \<times> int) list \<Rightarrow> string \<Rightarrow> jsval" where
  "getProperty obj key =
     (case map_of obj key of
        Some n \<Rightarrow> Number n
      | None \<Rightarrow> if key \<in> set objectPrototypeProps then Inherited key else Undefined)"

text \<open>\<^verbatim>\<open>v || d\<close>: \<open>v\<close> when it is truthy, the default otherwise.\<close>

fun js_or :: "jsval \<Rightarrow> int \<Rightarrow> jsval" where
  "js_or Undefined d = Number d"
| "js_or (Number n) d = (if n = 0 then Number d else Number n)"
| "js_or (Inherited k) d = Inherited k"

text \<open>
  \<^verbatim>\<open>c >= v\<close> for a number \<open>c\<close>: a function or an object converts to NaN, and
  every comparison with NaN is false.
\<close>

fun js_ge :: "int \<Rightarrow> jsval \<Rightarrow> bool" where
  "js_ge c (Number n) = (n \<le> c)"
| "js_ge c Undefined = False"
| "js_ge c (Inherited k) = False"

text \<open>\<^verbatim>\<open>xs.findIndex(p)\<close>, with \<open>None\<close> for \<open>-1\<close>.\<close>

fun findIndex :: "('a \<Rightarrow> bool) \<Rightarrow> 'a list \<Rightarrow> nat option" where
  "findIndex P [] = None"
| "findIndex P (x # xs) =
     (if P x then Some 0 else map_option Suc (findIndex P xs))"

text \<open>The decimal digits of a number, as a template literal prints it.\<close>

fun decimal :: "nat \<Rightarrow> string" where
  "decimal n =
     (if n < 10 then [''0123456789'' ! n]
      else decimal (n div 10) @ [''0123456789'' ! (n mod 10)])"

declare decimal.simps [simp del]

section \<open>Policy table and fee calculator\<close>

definition membership_name :: "membership \<Rightarrow> string" where
  "membership_name m =
     (case m of BASIC \<Rightarrow> ''BASIC'' | PREMIUM \<Rightarrow> ''PREMIUM'' | STUDENT \<Rightarrow> ''STUDENT'')"

definition limits :: "(string \<times> int) list" where
  "limits = [(''BASIC'', 3), (''PREMIUM'', 10), (''STUDENT'', 5)]"

definition getBorrowingLimit :: "string \<Rightarrow> jsval" where
  "getBorrowingLimit mType = js_or (getProperty limits mType) 3"

definition borrowPeriods :: "(string \<times> int) list" where
  "borrowPeriods = [(''BASIC'', 14), (''PREMIUM'', 30), (''STUDENT'', 21)]"

definition msPerDay :: int where
  "msPerDay = 1000 * 60 * 60 * 24"

text \<open>The local \<^verbatim>\<open>days\<close> of \<^verbatim>\<open>calculateDueDate\<close>.\<close>

definition borrowPeriodDays :: "string \<Rightarrow> jsval" where
  "borrowPeriodDays mType = js_or (getProperty borrowPeriods mType) 14"

text \<open>
  The host's time zone: \<open>tz t True\<close> is the offset of local time from UTC, in
  milliseconds, at the UTC time \<open>t\<close>, and \<open>tz t False\<close> the offset at the local time
  \<open>t\<close> (\<^verbatim>\<open>LocalTZA(t, isUTC)\<close>).
\<close>

type_synonym host = "int \<Rightarrow> bool \<Rightarrow> int"

definition LocalTime :: "host \<Rightarrow> int \<Rightarrow> int" where
  "LocalTime tz t = t + tz t True"

definition UTC :: "host \<Rightarrow> int \<Rightarrow> int" where
  "UTC tz t = t - tz t False"

definition Day :: "int \<Rightarrow> int" where
  "Day t = t div msPerDay"

definition TimeWithinDay :: "int \<Rightarrow> int" where
  "TimeWithinDay t = t mod msPerDay"

definition MakeDate :: "int \<Rightarrow> int \<Rightarrow> int" where
  "MakeDate day time = day * msPerDay + time"

text \<open>A time value beyond 8.64e15 milliseconds either side of the epoch is no date.\<close>

definition TimeClip :: "int \<Rightarrow> jsdate" where
  "TimeClip t = (if 8640000000000000 < \<bar>t\<bar> then Invalid_Date else Date t)"

text \<open>
  \<^verbatim>\<open>d.setDate(d.getDate() + days)\<close> on a date with time value \<open>t\<close>:
  \<^verbatim>\<open>getDate\<close> is the day of the month of the local time, and \<^verbatim>\<open>setDate\<close>
  builds the local time with that day of the month in the same month, which
  \<^verbatim>\<open>MakeDay\<close> resolves to the day number of the local time plus \<open>days\<close>, keeps
  the time within the day, converts back to UTC and clips.
\<close>

definition setDate_getDate_plus :: "host \<Rightarrow> int \<Rightarrow> int \<Rightarrow> jsdate" where
  "setDate_getDate_plus tz t days =
     TimeClip (UTC tz (MakeDate (Day (LocalTime tz t) + days) (TimeWithinDay (LocalTime tz t))))"

text \<open>
  When \<open>days\<close> is not a number the sum \<^verbatim>\<open>getDate() + days\<close> is a string that is
  no number, and the date becomes invalid; an invalid date stays invalid.
\<close>

definition calculateDueDate :: "host \<Rightarrow> jsdate \<Rightarrow> string \<Rightarrow> jsdate" where
  "calculateDueDate tz bDate mType =
     (case (bDate, borrowPeriodDays mType) of
        (Date t, Number days) \<Rightarrow> setDate_getDate_plus tz t days
      | _ \<Rightarrow> Invalid_Date)"

definition calculateLateFee :: "jsdate \<Rightarrow> jsdate \<Rightarrow> jsnum" where
  "calculateLateFee dueDateObj returnDateObj =
     (case (dueDateObj, returnDateObj) of
        (Date d, Date r) \<Rightarrow>
          if r \<le> d then Finite 0
          else
            (let daysOverdue = \<lceil>(of_int (r - d) :: rat) / of_int msPerDay\<rceil>;
                 baseFee = 1 / 2;
                 maxFee = 25
             in Finite (min (of_int daysOverdue * baseFee) maxFee))
      | _ \<Rightarrow> NaN)"

section \<open>Borrowing engine\<close>

text \<open>\<^verbatim>\<open>a < b\<close> on two dates compares the time values; with NaN it is false.\<close>

fun date_lt :: "jsdate \<Rightarrow> jsdate \<Rightarrow> bool" where
  "date_lt (Date a) (Date b) = (a < b)"
| "date_lt (Date a) Invalid_Date = False"
| "date_lt Invalid_Date b = False"

text \<open>\<^verbatim>\<open>notes || ''\<close> on an optional string of the request body.\<close>

definition orEmpty :: "string option \<Rightarrow> string" where
  "orEmpty n = (case n of None \<Rightarrow> [] | Some str \<Rightarrow> str)"

type_synonym response = "failure + transaction"

text \<open>
  \<^verbatim>\<open>POST /borrow\<close>. \<open>uid\<close> is \<^verbatim>\<open>req.user._id\<close>, \<open>bid\<close> and
  \<open>reqNotes\<close> are the request body, \<open>now\<close> is the clock read by
  \<^verbatim>\<open>new Date()\<close>, \<open>tz\<close> is the host's time zone. A throw inside the handler reaches its \<^verbatim>\<open>catch\<close>,
  which answers 500 and leaves the arrays as they are at that point.
\<close>

definition borrow ::
  "host \<Rightarrow> store \<Rightarrow> string \<Rightarrow> string \<Rightarrow> string option \<Rightarrow> int \<Rightarrow> response \<times> store" where
  "borrow tz s uid bid reqNotes now =
     (case find (\<lambda>b. book_id b = bid) (books s) of
        None \<Rightarrow> (Inl NotFoundBook, s)
      | Some book \<Rightarrow>
          if availableQuantity book \<le> 0 then (Inl Unavailable, s)
          else
            (case find (\<lambda>u. user_id u = uid) (users s) of
               None \<Rightarrow> (Inl NotFoundMember, s)
             | Some user \<Rightarrow>
                 let borrowingLimit = getBorrowingLimit (membership_name (membershipType user));
                     currentBorrowedCount =
                       length (filter (\<lambda>t. userId t = uid \<and> status t = BORROWED) (transactions s))
                 in
                   if js_ge (int currentBorrowedCount) borrowingLimit then (Inl LimitReached, s)
                   else
                     (case find (\<lambda>t. userId t = uid \<and> bookId t = bid \<and> status t = BORROWED)
                             (transactions s) of
                        Some existingTransaction \<Rightarrow> (Inl AlreadyBorrowed, s)
                      | None \<Rightarrow>
                          let bDate = Date now;
                              due = calculateDueDate tz bDate (membership_name (membershipType user));
                              newTransaction =
                                \<lparr>tx_id = ''trans'' @ decimal (length (transactions s) + 1),
                                 userId = uid,
                                 bookId = bid,
                                 borrowDate = bDate,
                                 dueDate = due,
                                 returnDate = None,
                                 status = BORROWED,
                                 lateFee = Finite 0,
                                 renewalCount = 0,
                                 tx_notes = orEmpty reqNotes,
                                 returnCondition = None,
                                 returnNotes = None\<rparr>;
                              s1 = s\<lparr>transactions := transactions s @ [newTransaction]\<rparr>
                          in
                            (case findIndex (\<lambda>b. book_id b = bid) (books s1) of
                               None \<Rightarrow> (Inl InternalError, s1)
                             | Some bookIndex \<Rightarrow>
                                 (Inr newTransaction,
                                  s1\<lparr>books := (books s1)[bookIndex := (books s1 ! bookIndex)
                                     \<lparr>availableQuantity :=
                                        availableQuantity (books s1 ! bookIndex) - 1\<rparr>]\<rparr>)))))"

text \<open>
  \<^verbatim>\<open>POST /return\<close>. \<open>cond\<close> is the optional \<^verbatim>\<open>condition\<close> of the body,
  \<^verbatim>\<open>GOOD\<close> when absent. The response's \<^verbatim>\<open>daysOverdue\<close> is not stored and
  is left out.
\<close>

definition return_book ::
  "store \<Rightarrow> string \<Rightarrow> string \<Rightarrow> condition option \<Rightarrow> string option \<Rightarrow> int
     \<Rightarrow> response \<times> store" where
  "return_book s uid transactionId cond reqNotes now =
     (case findIndex (\<lambda>t. tx_id t = transactionId) (transactions s) of
        None \<Rightarrow> (Inl NotFoundTransaction, s)
      | Some transactionIndex \<Rightarrow>
          let transaction = transactions s ! transactionIndex in
            if userId transaction \<noteq> uid then (Inl Forbidden, s)
            else if status transaction = RETURNED then (Inl AlreadyReturned, s)
            else
              let rDate = Date now;
                  fee = calculateLateFee (dueDate transaction) rDate;
                  updatedTransaction =
                    transaction\<lparr>returnDate := Some rDate,
                                status := RETURNED,
                                lateFee := fee,
                                returnCondition := Some (case cond of None \<Rightarrow> GOOD | Some c \<Rightarrow> c),
                                returnNotes := Some (orEmpty reqNotes)\<rparr>;
                  s1 = s\<lparr>transactions := (transactions s)[transactionIndex := updatedTransaction]\<rparr>
              in
                (case find (\<lambda>b. book_id b = bookId transaction) (books s1) of
                   None \<Rightarrow> (Inr updatedTransaction, s1)
                 | Some book \<Rightarrow>
                     (case findIndex (\<lambda>b. book_id b = bookId transaction) (books s1) of
                        None \<Rightarrow> (Inl InternalError, s1)
                      | Some bookIndex \<Rightarrow>
                          (Inr updatedTransaction,
                           s1\<lparr>books := (books s1)[bookIndex := (books s1 ! bookIndex)
                              \<lparr>availableQuantity :=
                                 availableQuantity (books s1 ! bookIndex) + 1\<rparr>]\<rparr>))))"

text \<open>
  \<^verbatim>\<open>POST /:id/renew\<close>. The handler reads \<^verbatim>\<open>user.membershipType\<close> without
  testing \<^verbatim>\<open>user\<close>: when \<^verbatim>\<open>users.find\<close> gives \<^verbatim>\<open>undefined\<close> the
  read throws a TypeError, which the \<^verbatim>\<open>catch\<close> answers with 500.
\<close>

definition renew ::
  "host \<Rightarrow> store \<Rightarrow> string \<Rightarrow> string \<Rightarrow> int \<Rightarrow> response \<times> store" where
  "renew tz s uid transactionId now =
     (case findIndex (\<lambda>t. tx_id t = transactionId) (transactions s) of
        None \<Rightarrow> (Inl NotFoundTransaction, s)
      | Some transactionIndex \<Rightarrow>
          let transaction = transactions s ! transactionIndex in
            if userId transaction \<noteq> uid then (Inl Forbidden, s)
            else if status transaction \<noteq> BORROWED then (Inl NotRenewable, s)
            else if renewalCount transaction \<ge> 3 then (Inl RenewalLimitReached, s)
            else if date_lt (dueDate transaction) (Date now) then (Inl Overdue, s)
            else
              (case find (\<lambda>u. user_id u = uid) (users s) of
                 None \<Rightarrow> (Inl InternalError, s)
               | Some user \<Rightarrow>
                   let newDueDate =
                         calculateDueDate tz (dueDate transaction)
                           (membership_name (membershipType user));
                       updatedTransaction =
                         transaction\<lparr>dueDate := newDueDate,
                                     renewalCount := renewalCount transaction + 1\<rparr>
                   in (Inr updatedTransaction,
                       s\<lparr>transactions :=
                            (transactions s)[transactionIndex := updatedTransaction]\<rparr>)))"

text \<open>A request with the clock reading at which it is served, and a run of requests.\<close>

datatype request =
    Borrow string string "string option"
  | Return string string "condition option" "string option"
  | Renew string string

fun handle :: "host \<Rightarrow> store \<Rightarrow> request \<times> int \<Rightarrow> store" where
  "handle tz s (Borrow uid bid reqNotes, now) = snd (borrow tz s uid bid reqNotes now)"
| "handle tz s (Return uid transactionId cond reqNotes, now) =
     snd (return_book s uid transactionId cond reqNotes now)"
| "handle tz s (Renew uid transactionId, now) = snd (renew tz s uid transactionId now)"

definition run :: "host \<Rightarrow> store \<Rightarrow> (request \<times> int) list \<Rightarrow> store" where
  "run tz s reqs = foldl (handle tz) s reqs"

text \<open>
  Two hosts: one on UTC, and one on United States Eastern time in 2024 (five hours
  behind UTC, four between 2024-03-10 07:00 UTC and 2024-11-03 06:00 UTC; a local time
  that the change skips or repeats takes the offset from before the change).
\<close>

definition utcHost :: host where
  "utcHost t isUTC = 0"

definition easternHost :: host where
  "easternHost t isUTC =
     (if isUTC then
        (if 1710054000000 \<le> t \<and> t < 1730613600000 then - 14400000 else - 18000000)
      else
        (if 1710039600000 \<le> t \<and> t < 1730599200000 then - 14400000 else - 18000000))"

text \<open>The arrays as the module initialises them (dates as UTC midnights).\<close>

definition initialStore :: store where
  "initialStore =
     \<lparr>transactions =
        [\<lparr>tx_id = ''trans1'', userId = ''user1'', bookId = ''book1'',
          borrowDate = Date 1705276800000, dueDate = Date 1707868800000,
          returnDate = None, status = BORROWED, lateFee = Finite 0, renewalCount = 0,
          tx_notes = [], returnCondition = None, returnNotes = None\<rparr>,
         \<lparr>tx_id = ''trans2'', userId = ''user2'', bookId = ''book2'',
          borrowDate = Date 1704844800000, dueDate = Date 1706745600000,
          returnDate = Some (Date 1706572800000), status = RETURNED, lateFee = Finite 0,
          renewalCount = 1, tx_notes = [], returnCondition = None, returnNotes = None\<rparr>],
      users =
        [\<lparr>user_id = ''user1'', user_name = ''John Doe'', membershipType = PREMIUM,
          isActive = True\<rparr>,
         \<lparr>user_id = ''user2'', user_name = ''Jane Smith'', membershipType = STUDENT,
          isActive = True\<rparr>],
      books =
        [\<lparr>book_id = ''book1'', book_title = ''The Great Gatsby'',
          availableQuantity = 3, totalQuantity = 5\<rparr>,
         \<lparr>book_id = ''book2'', book_title = ''To Kill a Mockingbird'',
          availableQuantity = 2, totalQuantity = 4\<rparr>,
         \<lparr>book_id = ''book3'', book_title = ''Introduction to Algorithms'',
          availableQuantity = 1, totalQuantity = 3\<rparr>]\<rparr>"

section \<open>The specification's vocabulary\<close>

text \<open>
  The policy table as the specification words it: limit and loan period of each
  membership type.
\<close>

fun limitFor :: "membership \<Rightarrow> int" where
  "limitFor BASIC = 3"
| "limitFor PREMIUM = 10"
| "limitFor STUDENT = 5"

fun loanPeriodDays :: "membership \<Rightarrow> int" where
  "loanPeriodDays BASIC = 14"
| "loanPeriodDays PREMIUM = 30"
| "loanPeriodDays STUDENT = 21"

text \<open>
  A member's active transactions: those stored as \<open>BORROWED\<close> (an overdue loan is
  derived from one of these at read time and is stored as \<open>BORROWED\<close>).
\<close>

definition activeCount :: "store \<Rightarrow> string \<Rightarrow> nat" where
  "activeCount s uid =
     length (filter (\<lambda>t. userId t = uid \<and> status t = BORROWED) (transactions s))"

definition hasActive :: "store \<Rightarrow> string \<Rightarrow> string \<Rightarrow> bool" where
  "hasActive s uid bid =
     (\<exists>t \<in> set (transactions s). userId t = uid \<and> bookId t = bid \<and> status t = BORROWED)"

text \<open>The loans of a book that have not been returned.\<close>

definition outstanding :: "store \<Rightarrow> string \<Rightarrow> nat" where
  "outstanding s bid =
     length (filter (\<lambda>t. bookId t = bid \<and> status t \<noteq> RETURNED) (transactions s))"

text \<open>
  The ledger is consistent when book ids are unique and, for every book, the copies on
  the shelf are not negative and, with the copies on loan, do not exceed the total.
\<close>

definition ledger_ok :: "store \<Rightarrow> bool" where
  "ledger_ok s \<longleftrightarrow>
     distinct (map book_id (books s)) \<and>
     (\<forall>b \<in> set (books s).
        0 \<le> availableQuantity b \<and>
        availableQuantity b + int (outstanding s (book_id b)) \<le> totalQuantity b)"

section \<open>Stores used in the examples\<close>

text \<open>
  A front desk with one book out of copies, a member at the limit, a member who holds
  a book already, and a member whose account is not active.
\<close>

definition deskStore :: store where
  "deskStore =
     \<lparr>transactions =
        [\<lparr>tx_id = ''trans1'', userId = ''basic1'', bookId = ''bookA'',
          borrowDate = Date 1705276800000, dueDate = Date 1706486400000,
          returnDate = None, status = BORROWED, lateFee = Finite 0, renewalCount = 0,
          tx_notes = [], returnCondition = None, returnNotes = None\<rparr>,
         \<lparr>tx_id = ''trans2'', userId = ''basic1'', bookId = ''bookB'',
          borrowDate = Date 1705276800000, dueDate = Date 1706486400000,
          returnDate = None, status = BORROWED, lateFee = Finite 0, renewalCount = 0,
          tx_notes = [], returnCondition = None, returnNotes = None\<rparr>,
         \<lparr>tx_id = ''trans3'', userId = ''basic1'', bookId = ''bookD'',
          borrowDate = Date 1705276800000, dueDate = Date 1706486400000,
          returnDate = None, status = BORROWED, lateFee = Finite 0, renewalCount = 0,
          tx_notes = [], returnCondition = None, returnNotes = None\<rparr>,
         \<lparr>tx_id = ''trans4'', userId = ''prem1'', bookId = ''bookB'',
          borrowDate = Date 1705276800000, dueDate = Date 1707868800000,
          returnDate = None, status = BORROWED, lateFee = Finite 0, renewalCount = 0,
          tx_notes = [], returnCondition = None, returnNotes = None\<rparr>],
      users =
        [\<lparr>user_id = ''basic1'', user_name = ''B'', membershipType = BASIC, isActive = True\<rparr>,
         \<lparr>user_id = ''prem1'', user_name = ''P'', membershipType = PREMIUM, isActive = True\<rparr>,
         \<lparr>user_id = ''stud1'', user_name = ''S'', membershipType = STUDENT, isActive = False\<rparr>],
      books =
        [\<lparr>book_id = ''bookA'', book_title = ''A'', availableQuantity = 0, totalQuantity = 1\<rparr>,
         \<lparr>book_id = ''bookB'', book_title = ''B'', availableQuantity = 1, totalQuantity = 3\<rparr>,
         \<lparr>book_id = ''bookC'', book_title = ''C'', availableQuantity = 5, totalQuantity = 5\<rparr>,
         \<lparr>book_id = ''bookD'', book_title = ''D'', availableQuantity = 1, totalQuantity = 2\<rparr>]\<rparr>"

text \<open>The initial arrays with the record of the member \<open>user1\<close> missing.\<close>

definition orphanStore :: store where
  "orphanStore = initialStore\<lparr>users := [users initialStore ! 1]\<rparr>"

text \<open>The initial arrays with the first loan due on 2025-01-01.\<close>

definition renewalStore :: store where
  "renewalStore =
     initialStore\<lparr>transactions :=
        [(transactions initialStore ! 0)\<lparr>dueDate := Date 1735689600000\<rparr>,
         transactions initialStore ! 1]\<rparr>"

text \<open>
  A ledger that counts the only copy of a book as on the shelf while a loan of it is
  still open.
\<close>

definition overfullStore :: store where
  "overfullStore =
     \<lparr>transactions =
        [\<lparr>tx_id = ''trans1'', userId = ''user1'', bookId = ''book1'',
          borrowDate = Date 1705276800000, dueDate = Date 1707868800000,
          returnDate = None, status = BORROWED, lateFee = Finite 0, renewalCount = 0,
          tx_notes = [], returnCondition = None, returnNotes = None\<rparr>],
      users =
        [\<lparr>user_id = ''user1'', user_name = ''John Doe'', membershipType = PREMIUM,
          isActive = True\<rparr>],
      books =
        [\<lparr>book_id = ''book1'', book_title = ''The Great Gatsby'',
          availableQuantity = 1, totalQuantity = 1\<rparr>]\<rparr>"

section \<open>Policy table: results\<close>

lemma getBorrowingLimit_known:
  "getBorrowingLimit (membership_name m) =
     Number (case m of BASIC \<Rightarrow> 3 | PREMIUM \<Rightarrow> 10 | STUDENT \<Rightarrow> 5)"
  by (cases m) (simp_all add: getBorrowingLimit_def getProperty_def limits_def membership_name_def)

lemma borrowPeriodDays_known:
  "borrowPeriodDays (membership_name m) =
     Number (case m of BASIC \<Rightarrow> 14 | PREMIUM \<Rightarrow> 30 | STUDENT \<Rightarrow> 21)"
  by (cases m)
    (simp_all add: borrowPeriodDays_def getProperty_def borrowPeriods_def membership_name_def)





lemma msPerDay_pos: "0 < msPerDay"
  by (simp add: msPerDay_def)

lemma calculateLateFee_Date:
  "calculateLateFee (Date d) (Date r) =
     Finite (if r \<le> d then 0 else min (of_int \<lceil>(of_int (r - d) :: rat) / of_int msPerDay\<rceil> / 2) 25)"
  by (simp add: calculateLateFee_def Let_def)

lemma calculateLateFee_div:
  "calculateLateFee (Date d) (Date r) =
     Finite (if r \<le> d then 0 else min (of_int (- ((d - r) div msPerDay)) / 2) 25)"
proof -
  have "\<lceil>(of_int (r - d) :: rat) / of_int msPerDay\<rceil> = - ((d - r) div msPerDay)"
    using ceiling_divide_eq_div [of "r - d" msPerDay, where ?'a = rat] by simp
  then show ?thesis
    by (simp only: calculateLateFee_Date)
qed

lemma ceiling_days_bounds:
  fixes x :: int
  shows "(\<lceil>(of_int x :: rat) / of_int msPerDay\<rceil> - 1) * msPerDay < x \<and>
         x \<le> \<lceil>(of_int x :: rat) / of_int msPerDay\<rceil> * msPerDay"
proof -
  let ?q = "(of_int x :: rat) / of_int msPerDay"
  have pos: "(0::rat) < of_int msPerDay" using msPerDay_pos by simp
  have "of_int \<lceil>?q\<rceil> - 1 < ?q" by linarith
  then have "(of_int \<lceil>?q\<rceil> - 1) * of_int msPerDay < (of_int x :: rat)"
    using pos_less_divide_eq [OF pos, of "of_int \<lceil>?q\<rceil> - 1" "of_int x"] by blast
  then have "(of_int ((\<lceil>?q\<rceil> - 1) * msPerDay) :: rat) < of_int x" by simp
  then have a: "(\<lceil>?q\<rceil> - 1) * msPerDay < x" by (simp only: of_int_less_iff)
  have "?q \<le> of_int \<lceil>?q\<rceil>" by linarith
  then have "(of_int x :: rat) \<le> of_int \<lceil>?q\<rceil> * of_int msPerDay"
    using pos_divide_le_eq [OF pos, of "of_int x" "of_int \<lceil>?q\<rceil>"] by blast
  then have "(of_int x :: rat) \<le> of_int (\<lceil>?q\<rceil> * msPerDay)" by simp
  then have b: "x \<le> \<lceil>?q\<rceil> * msPerDay" by (simp only: of_int_le_iff)
  from a b show ?thesis by simp
qed

section \<open>Fee calculator: results\<close>

text \<open>
  C3. The late fee is 0 when the evaluation date is not after the due date; otherwise
  it is \<open>min (daysOverdue * 0.50) 25.00\<close>, where \<open>daysOverdue\<close> is the number of
  days between the two dates rounded up to a whole day. A return six days late costs
  3.00.
\<close>

theorem calculateLateFee_spec:
  "(ev \<le> due \<longrightarrow> calculateLateFee (Date due) (Date ev) = Finite 0) \<and>
   (due < ev \<longrightarrow>
      (\<exists>daysOverdue::int.
          (daysOverdue - 1) * msPerDay < ev - due \<and> ev - due \<le> daysOverdue * msPerDay \<and>
          calculateLateFee (Date due) (Date ev) = Finite (min (of_int daysOverdue * (1 / 2)) 25))) \<and>
   calculateLateFee (Date due) (Date (due + 6 * msPerDay)) = Finite 3"
proof (intro conjI impI)
  assume "ev \<le> due" then show "calculateLateFee (Date due) (Date ev) = Finite 0"
    by (simp add: calculateLateFee_Date)
next
  assume lt: "due < ev"
  let ?n = "\<lceil>(of_int (ev - due) :: rat) / of_int msPerDay\<rceil>"
  have "calculateLateFee (Date due) (Date ev) = Finite (min (of_int ?n * (1 / 2)) 25)"
    using lt by (simp add: calculateLateFee_Date)
  with ceiling_days_bounds [of "ev - due"]
  show "\<exists>daysOverdue::int.
          (daysOverdue - 1) * msPerDay < ev - due \<and> ev - due \<le> daysOverdue * msPerDay \<and>
          calculateLateFee (Date due) (Date ev) = Finite (min (of_int daysOverdue * (1 / 2)) 25)"
    by blast
next
  show "calculateLateFee (Date due) (Date (due + 6 * msPerDay)) = Finite 3"
    by (simp add: calculateLateFee_Date msPerDay_def)
qed

theorem calculateLateFee_spec_witness:
  "calculateLateFee (Date 1707868800000) (Date 1708387200000) = Finite 3 \<and>
   calculateLateFee (Date 1707868800000) (Date 1707955200001) = Finite 1 \<and>
   calculateLateFee (Date 1707868800000) (Date 1707868800000) = Finite 0"
proof -
  have a: "calculateLateFee (Date 1707868800000) (Date 1708387200000) = Finite 3"
    using calculateLateFee_spec [of 0 1707868800000] by (simp add: msPerDay_def)
  have b: "calculateLateFee (Date 1707868800000) (Date 1707955200001) = Finite 1"
    by (simp add: calculateLateFee_div msPerDay_def)
  have c: "calculateLateFee (Date 1707868800000) (Date 1707868800000) = Finite 0"
    using calculateLateFee_spec [of 1707868800000 1707868800000] by simp
  from a b c show ?thesis by simp
qed

text \<open>
  C9. For a fixed due date the late fee does not decrease as the evaluation date moves
  later past the due date, and it is never above 25.00 (nor below 0).
\<close>

theorem calculateLateFee_monotone_capped:
  "(due < ev1 \<and> ev1 \<le> ev2 \<longrightarrow>
      (\<exists>f1 f2. calculateLateFee (Date due) (Date ev1) = Finite f1 \<and>
               calculateLateFee (Date due) (Date ev2) = Finite f2 \<and> f1 \<le> f2)) \<and>
   (\<exists>f. calculateLateFee (Date due) (Date ev) = Finite f \<and> 0 \<le> f \<and> f \<le> 25)"
proof (intro conjI impI)
  assume h: "due < ev1 \<and> ev1 \<le> ev2"
  have pos: "(0::rat) < of_int msPerDay" using msPerDay_pos by simp
  have "(of_int (ev1 - due) :: rat) \<le> of_int (ev2 - due)" using h by simp
  then have "(of_int (ev1 - due) :: rat) / of_int msPerDay \<le> of_int (ev2 - due) / of_int msPerDay"
    using pos by (simp add: divide_right_mono)
  then have "\<lceil>(of_int (ev1 - due) :: rat) / of_int msPerDay\<rceil>
      \<le> \<lceil>(of_int (ev2 - due) :: rat) / of_int msPerDay\<rceil>"
    by (rule ceiling_mono)
  then have "min ((of_int \<lceil>(of_int (ev1 - due) :: rat) / of_int msPerDay\<rceil> :: rat) / 2) 25
      \<le> min (of_int \<lceil>(of_int (ev2 - due) :: rat) / of_int msPerDay\<rceil> / 2) 25"
    by (simp add: min_le_iff_disj)
  then show "\<exists>f1 f2. calculateLateFee (Date due) (Date ev1) = Finite f1 \<and>
               calculateLateFee (Date due) (Date ev2) = Finite f2 \<and> f1 \<le> f2"
    using h by (simp add: calculateLateFee_Date)
next
  show "\<exists>f. calculateLateFee (Date due) (Date ev) = Finite f \<and> 0 \<le> f \<and> f \<le> 25"
  proof (cases "ev \<le> due")
    case True then show ?thesis by (simp add: calculateLateFee_Date)
  next
    case False
    have pos: "(0::rat) < of_int msPerDay" using msPerDay_pos by simp
    have "(0::rat) \<le> of_int (ev - due) / of_int msPerDay" using False pos by simp
    then have "0 \<le> \<lceil>(of_int (ev - due) :: rat) / of_int msPerDay\<rceil>"
      by (simp add: le_ceiling_iff) 
    then show ?thesis using False by (simp add: calculateLateFee_Date)
  qed
qed

theorem calculateLateFee_monotone_capped_witness:
  "\<exists>f1 f2. calculateLateFee (Date 1707868800000) (Date 1708387200000) = Finite f1 \<and>
           calculateLateFee (Date 1707868800000) (Date 1808387200000) = Finite f2 \<and>
           f1 \<le> f2 \<and> f2 \<le> 25"
proof -
  have h: "(1707868800000::int) < 1708387200000 \<and> (1708387200000::int) \<le> 1808387200000"
    by simp
  from calculateLateFee_monotone_capped [of 1707868800000 1708387200000 1808387200000 1808387200000] h
  show ?thesis by (metis jsnum.inject)
qed

section \<open>Lists, policy and evaluation: auxiliary facts\<close>

lemma findIndex_None_iff: "findIndex P xs = None \<longleftrightarrow> (\<forall>x \<in> set xs. \<not> P x)"
  by (induction xs) auto

lemma findIndex_SomeD:
  "findIndex P xs = Some i \<Longrightarrow> i < length xs \<and> P (xs ! i)"
proof (induction xs arbitrary: i)
  case Nil
  then show ?case by simp
next
  case (Cons x xs)
  then show ?case by (cases "P x") auto
qed

lemma find_eq_findIndex: "find P xs = map_option (\<lambda>i. xs ! i) (findIndex P xs)"
  by (induction xs) (auto simp: option.map_comp comp_def)

lemma findIndex_update_same:
  "findIndex P xs = Some i \<Longrightarrow> P y \<Longrightarrow> findIndex P (xs[i := y]) = Some i"
proof (induction xs arbitrary: i)
  case Nil
  then show ?case by simp
next
  case (Cons x xs)
  show ?case
  proof (cases "P x")
    case True
    with Cons.prems show ?thesis by simp
  next
    case False
    with Cons.prems obtain j where j: "findIndex P xs = Some j" "i = Suc j" by auto
    with Cons.IH [of j] Cons.prems(2) False show ?thesis by simp
  qed
qed

lemma membership_limit: "getBorrowingLimit (membership_name m) = Number (limitFor m)"
  by (cases m) (simp_all add: getBorrowingLimit_known)

lemma membership_period: "borrowPeriodDays (membership_name m) = Number (loanPeriodDays m)"
  by (cases m) (simp_all add: borrowPeriodDays_known)



text \<open>
  On the Eastern host, fourteen days from 2024-03-01 07:00 local time (12:00 UTC) is
  2024-03-15 07:00 local time, which is 11:00 UTC after the change of offset: an hour
  less than fourteen times 86400000 milliseconds. A result past the last valid time
  value is no date.
\<close>

lemma setDate_getDate_plus_examples:
  "setDate_getDate_plus easternHost 1709294400000 14 = Date 1710500400000"
  "setDate_getDate_plus utcHost 1709294400000 14 = Date 1710504000000"
  "setDate_getDate_plus utcHost 8640000000000000 14 = Invalid_Date"
  by (simp_all add: setDate_getDate_plus_def LocalTime_def UTC_def Day_def TimeWithinDay_def
      MakeDate_def TimeClip_def msPerDay_def easternHost_def utcHost_def)

lemma calculateDueDate_member:
  "calculateDueDate tz (Date t) (membership_name m) =
     setDate_getDate_plus tz t (loanPeriodDays m)"
  "calculateDueDate tz Invalid_Date (membership_name m) = Invalid_Date"
  by (simp_all add: calculateDueDate_def membership_period)

lemma find_hasActive:
  "find (\<lambda>t. userId t = uid \<and> bookId t = bid \<and> status t = BORROWED) (transactions s) = None
     \<longleftrightarrow> \<not> hasActive s uid bid"
  by (auto simp: hasActive_def find_None_iff)

lemma borrow_success_form:
  assumes "borrow tz s uid bid reqNotes now = (Inr t, s')"
  shows "\<exists>book user bookIndex.
           find (\<lambda>b. book_id b = bid) (books s) = Some book \<and>
           findIndex (\<lambda>b. book_id b = bid) (books s) = Some bookIndex \<and>
           find (\<lambda>u. user_id u = uid) (users s) = Some user \<and>
           t = \<lparr>tx_id = ''trans'' @ decimal (length (transactions s) + 1),
                userId = uid, bookId = bid,
                borrowDate = Date now,
                dueDate = setDate_getDate_plus tz now (loanPeriodDays (membershipType user)),
                returnDate = None, status = BORROWED, lateFee = Finite 0, renewalCount = 0,
                tx_notes = orEmpty reqNotes, returnCondition = None, returnNotes = None\<rparr> \<and>
           s' = s\<lparr>transactions := transactions s @ [t],
                  books := (books s)[bookIndex :=
                     book\<lparr>availableQuantity := availableQuantity book - 1\<rparr>]\<rparr>"
proof -
  from assms obtain book where book: "find (\<lambda>b. book_id b = bid) (books s) = Some book"
    by (auto simp: borrow_def split: option.splits)
  then obtain bookIndex where bi: "findIndex (\<lambda>b. book_id b = bid) (books s) = Some bookIndex"
      and bk: "books s ! bookIndex = book"
    by (auto simp: find_eq_findIndex)
  from assms book obtain user where user: "find (\<lambda>u. user_id u = uid) (users s) = Some user"
    by (auto simp: borrow_def split: option.splits if_splits)
  from assms book bi bk user show ?thesis
    by (auto simp: borrow_def Let_def calculateDueDate_member split: option.splits if_splits)
qed

section \<open>Borrow\<close>

lemmas eval_defs =
  borrow_def return_book_def renew_def Let_def membership_name_def getBorrowingLimit_def
  borrowPeriodDays_def getProperty_def limits_def borrowPeriods_def calculateDueDate_def
  orEmpty_def decimal.simps msPerDay_def activeCount_def hasActive_def
  setDate_getDate_plus_def LocalTime_def UTC_def Day_def TimeWithinDay_def MakeDate_def
  TimeClip_def utcHost_def easternHost_def

text \<open>
  C1. Borrow checks its preconditions in this order, and the first that fails decides
  the response, with the store unchanged: the book exists (else NotFound(Book)); it has
  a copy available (else Unavailable); the member exists (else NotFound(Member)); the
  member's count of active transactions is below the limit of the membership type (else
  LimitReached); the member has no active transaction for this book (else
  AlreadyBorrowed). When all pass, the borrow succeeds. The handler does not read
  \<open>isActive\<close>: the member is any record with the caller's id.
\<close>

theorem borrow_checks_in_order:
  "(find (\<lambda>b. book_id b = bid) (books s) = None \<longrightarrow>
      borrow tz s uid bid reqNotes now = (Inl NotFoundBook, s)) \<and>
   (\<forall>book. find (\<lambda>b. book_id b = bid) (books s) = Some book \<longrightarrow>
      (availableQuantity book \<le> 0 \<longrightarrow> borrow tz s uid bid reqNotes now = (Inl Unavailable, s)) \<and>
      (0 < availableQuantity book \<longrightarrow>
         (find (\<lambda>u. user_id u = uid) (users s) = None \<longrightarrow>
            borrow tz s uid bid reqNotes now = (Inl NotFoundMember, s)) \<and>
         (\<forall>user. find (\<lambda>u. user_id u = uid) (users s) = Some user \<longrightarrow>
            (limitFor (membershipType user) \<le> int (activeCount s uid) \<longrightarrow>
               borrow tz s uid bid reqNotes now = (Inl LimitReached, s)) \<and>
            (int (activeCount s uid) < limitFor (membershipType user) \<longrightarrow>
               (hasActive s uid bid \<longrightarrow>
                  borrow tz s uid bid reqNotes now = (Inl AlreadyBorrowed, s)) \<and>
               (\<not> hasActive s uid bid \<longrightarrow>
                  (\<exists>t s'. borrow tz s uid bid reqNotes now = (Inr t, s')))))))"
proof (intro conjI allI impI)
  assume "find (\<lambda>b. book_id b = bid) (books s) = None"
  then show "borrow tz s uid bid reqNotes now = (Inl NotFoundBook, s)"
    by (simp add: borrow_def)
next
  fix book
  assume "find (\<lambda>b. book_id b = bid) (books s) = Some book" "availableQuantity book \<le> 0"
  then show "borrow tz s uid bid reqNotes now = (Inl Unavailable, s)"
    by (simp add: borrow_def)
next
  fix book
  assume "find (\<lambda>b. book_id b = bid) (books s) = Some book" "0 < availableQuantity book"
    "find (\<lambda>u. user_id u = uid) (users s) = None"
  then show "borrow tz s uid bid reqNotes now = (Inl NotFoundMember, s)"
    by (simp add: borrow_def)
next
  fix book user
  assume "find (\<lambda>b. book_id b = bid) (books s) = Some book" "0 < availableQuantity book"
    "find (\<lambda>u. user_id u = uid) (users s) = Some user"
    "limitFor (membershipType user) \<le> int (activeCount s uid)"
  then show "borrow tz s uid bid reqNotes now = (Inl LimitReached, s)"
    by (simp add: borrow_def membership_limit activeCount_def)
next
  fix book user
  assume "find (\<lambda>b. book_id b = bid) (books s) = Some book" "0 < availableQuantity book"
    "find (\<lambda>u. user_id u = uid) (users s) = Some user"
    "int (activeCount s uid) < limitFor (membershipType user)"
    "hasActive s uid bid"
  then show "borrow tz s uid bid reqNotes now = (Inl AlreadyBorrowed, s)"
    using find_hasActive [of uid bid s]
    by (auto simp: borrow_def membership_limit activeCount_def Let_def split: option.splits)
next
  fix book user
  assume b: "find (\<lambda>b. book_id b = bid) (books s) = Some book" "0 < availableQuantity book"
    and u: "find (\<lambda>u. user_id u = uid) (users s) = Some user"
    "int (activeCount s uid) < limitFor (membershipType user)"
    and h: "\<not> hasActive s uid bid"
  from b(1) obtain i where "findIndex (\<lambda>b. book_id b = bid) (books s) = Some i"
    by (auto simp: find_eq_findIndex)
  with b u h find_hasActive [of uid bid s]
  show "\<exists>t s'. borrow tz s uid bid reqNotes now = (Inr t, s')"
    by (simp add: borrow_def membership_limit activeCount_def Let_def)
qed

theorem borrow_checks_in_order_witness:
  "borrow utcHost deskStore ''prem1'' ''bookZ'' None 1706000000000 = (Inl NotFoundBook, deskStore) \<and>
   borrow utcHost deskStore ''prem1'' ''bookA'' None 1706000000000 = (Inl Unavailable, deskStore) \<and>
   borrow utcHost deskStore ''ghost'' ''bookC'' None 1706000000000 = (Inl NotFoundMember, deskStore) \<and>
   borrow utcHost deskStore ''basic1'' ''bookC'' None 1706000000000 = (Inl LimitReached, deskStore) \<and>
   borrow utcHost deskStore ''prem1'' ''bookB'' None 1706000000000 = (Inl AlreadyBorrowed, deskStore) \<and>
   (\<exists>t s'. borrow utcHost deskStore ''prem1'' ''bookC'' None 1706000000000 = (Inr t, s'))"
proof -
  note ord = borrow_checks_in_order [where tz = utcHost and s = deskStore and reqNotes = None
      and now = 1706000000000]
  have 1: "borrow utcHost deskStore ''prem1'' ''bookZ'' None 1706000000000 = (Inl NotFoundBook, deskStore)"
    using ord [where bid = "''bookZ''" and uid = "''prem1''"] by (simp add: deskStore_def)
  have 2: "borrow utcHost deskStore ''prem1'' ''bookA'' None 1706000000000 = (Inl Unavailable, deskStore)"
    using ord [where bid = "''bookA''" and uid = "''prem1''"] by (simp add: deskStore_def)
  have 3: "borrow utcHost deskStore ''ghost'' ''bookC'' None 1706000000000 = (Inl NotFoundMember, deskStore)"
    using ord [where bid = "''bookC''" and uid = "''ghost''"] by (simp add: deskStore_def)
  have 4: "borrow utcHost deskStore ''basic1'' ''bookC'' None 1706000000000 = (Inl LimitReached, deskStore)"
    using ord [where bid = "''bookC''" and uid = "''basic1''"] by (simp add: deskStore_def activeCount_def)
  have 5: "borrow utcHost deskStore ''prem1'' ''bookB'' None 1706000000000 = (Inl AlreadyBorrowed, deskStore)"
    using ord [where bid = "''bookB''" and uid = "''prem1''"] by (simp add: deskStore_def activeCount_def hasActive_def)
  have 6: "\<exists>t s'. borrow utcHost deskStore ''prem1'' ''bookC'' None 1706000000000 = (Inr t, s')"
    using ord [where bid = "''bookC''" and uid = "''prem1''"] by (simp add: deskStore_def activeCount_def hasActive_def)
  from 1 2 3 4 5 6 show ?thesis by blast
qed

text \<open>
  The member \<open>stud1\<close> of the front desk has \<open>isActive = False\<close> and borrows all
  the same: the response is the new transaction, not NotFound(Member).
\<close>

theorem borrow_inactive_member_counterexample:
  "isActive (users deskStore ! 2) = False \<and>
   user_id (users deskStore ! 2) = ''stud1'' \<and>
   fst (borrow utcHost deskStore ''stud1'' ''bookC'' None 1706000000000) =
     Inr \<lparr>tx_id = ''trans5'', userId = ''stud1'', bookId = ''bookC'',
          borrowDate = Date 1706000000000, dueDate = Date 1707814400000,
          returnDate = None, status = BORROWED, lateFee = Finite 0, renewalCount = 0,
          tx_notes = [], returnCondition = None, returnNotes = None\<rparr>"
  by (simp add: deskStore_def eval_defs)



section \<open>Return\<close>

lemma return_book_success:
  assumes i: "findIndex (\<lambda>t. tx_id t = tid) (transactions s) = Some i"
    and own: "userId (transactions s ! i) = uid"
    and st: "status (transactions s ! i) \<noteq> RETURNED"
    and b: "findIndex (\<lambda>b. book_id b = bookId (transactions s ! i)) (books s) = Some j"
  shows "return_book s uid tid cond reqNotes now =
           (Inr ((transactions s ! i)\<lparr>returnDate := Some (Date now), status := RETURNED,
                  lateFee := calculateLateFee (dueDate (transactions s ! i)) (Date now),
                  returnCondition := Some (case cond of None \<Rightarrow> GOOD | Some c \<Rightarrow> c),
                  returnNotes := Some (orEmpty reqNotes)\<rparr>),
            s\<lparr>transactions := (transactions s)[i := (transactions s ! i)
                  \<lparr>returnDate := Some (Date now), status := RETURNED,
                   lateFee := calculateLateFee (dueDate (transactions s ! i)) (Date now),
                   returnCondition := Some (case cond of None \<Rightarrow> GOOD | Some c \<Rightarrow> c),
                   returnNotes := Some (orEmpty reqNotes)\<rparr>],
               books := (books s)[j := (books s ! j)
                  \<lparr>availableQuantity := availableQuantity (books s ! j) + 1\<rparr>]\<rparr>)"
  using assms by (simp add: return_book_def Let_def find_eq_findIndex)

lemma return_book_returned:
  assumes i: "findIndex (\<lambda>t. tx_id t = tid) (transactions s) = Some i"
    and own: "userId (transactions s ! i) = uid"
    and st: "status (transactions s ! i) = RETURNED"
  shows "return_book s uid tid cond reqNotes now = (Inl AlreadyReturned, s)"
  using assms by (simp add: return_book_def Let_def)

text \<open>
  C4. For a transaction that is not yet returned, owned by the caller, of a book in the
  ledger: the first Return succeeds, a second Return of the same transaction answers
  AlreadyReturned and leaves the store as the first one left it, and over the two calls
  the book's availableQuantity went up by exactly one.
\<close>

theorem return_twice:
  assumes i: "findIndex (\<lambda>t. tx_id t = tid) (transactions s) = Some i"
    and own: "userId (transactions s ! i) = uid"
    and st: "status (transactions s ! i) \<noteq> RETURNED"
    and b: "findIndex (\<lambda>b. book_id b = bookId (transactions s ! i)) (books s) = Some j"
  shows "\<exists>t1 s1.
           return_book s uid tid cond1 notes1 now1 = (Inr t1, s1) \<and>
           return_book s1 uid tid cond2 notes2 now2 = (Inl AlreadyReturned, s1) \<and>
           status t1 = RETURNED \<and>
           transactions s1 = (transactions s)[i := t1] \<and>
           users s1 = users s \<and>
           books s1 = (books s)[j := (books s ! j)
              \<lparr>availableQuantity := availableQuantity (books s ! j) + 1\<rparr>]"
proof -
  let ?t1 = "(transactions s ! i)\<lparr>returnDate := Some (Date now1), status := RETURNED,
                  lateFee := calculateLateFee (dueDate (transactions s ! i)) (Date now1),
                  returnCondition := Some (case cond1 of None \<Rightarrow> GOOD | Some c \<Rightarrow> c),
                  returnNotes := Some (orEmpty notes1)\<rparr>"
  let ?s1 = "s\<lparr>transactions := (transactions s)[i := ?t1],
               books := (books s)[j := (books s ! j)
                  \<lparr>availableQuantity := availableQuantity (books s ! j) + 1\<rparr>]\<rparr>"
  have first: "return_book s uid tid cond1 notes1 now1 = (Inr ?t1, ?s1)"
    by (rule return_book_success [OF i own st b])
  from findIndex_SomeD [OF i] have len: "i < length (transactions s)" and id: "tx_id (transactions s ! i) = tid"
    by simp_all
  have i1: "findIndex (\<lambda>t. tx_id t = tid) (transactions ?s1) = Some i"
    using findIndex_update_same [OF i, of ?t1] id by simp
  have at: "transactions ?s1 ! i = ?t1" using len by simp
  have second: "return_book ?s1 uid tid cond2 notes2 now2 = (Inl AlreadyReturned, ?s1)"
    by (rule return_book_returned [OF i1]) (simp_all only: at, simp_all add: own)
  from first second show ?thesis by simp
qed

theorem return_twice_witness:
  "\<exists>t1 s1.
     return_book initialStore ''user1'' ''trans1'' None None 1708387200000 = (Inr t1, s1) \<and>
     return_book s1 ''user1'' ''trans1'' None None 1708387200001 = (Inl AlreadyReturned, s1) \<and>
     status t1 = RETURNED \<and> lateFee t1 = Finite 3 \<and>
     map availableQuantity (books initialStore) = [3, 2, 1] \<and>
     map availableQuantity (books s1) = [4, 2, 1]"
proof -
  have i: "findIndex (\<lambda>t. tx_id t = ''trans1'') (transactions initialStore) = Some 0"
    by (simp add: initialStore_def)
  have own: "userId (transactions initialStore ! 0) = ''user1''"
    and st: "status (transactions initialStore ! 0) \<noteq> RETURNED"
    and b: "findIndex (\<lambda>b. book_id b = bookId (transactions initialStore ! 0)) (books initialStore) = Some 0"
    by (simp_all add: initialStore_def)
  from return_twice [OF i own st b, of None None 1708387200000 None None 1708387200001]
  obtain t1 s1 where
    r: "return_book initialStore ''user1'' ''trans1'' None None 1708387200000 = (Inr t1, s1)"
       "return_book s1 ''user1'' ''trans1'' None None 1708387200001 = (Inl AlreadyReturned, s1)"
       "status t1 = RETURNED"
       "books s1 = (books initialStore)[0 := (books initialStore ! 0)
              \<lparr>availableQuantity := availableQuantity (books initialStore ! 0) + 1\<rparr>]"
    by blast
  have fee: "lateFee t1 = Finite 3"
    using r(1) by (simp add: return_book_def initialStore_def Let_def calculateLateFee_div msPerDay_def, auto)
  have q: "map availableQuantity (books s1) = [4, 2, 1]"
    by (simp add: r(4) initialStore_def)
  have q0: "map availableQuantity (books initialStore) = [3, 2, 1]"
    by (simp add: initialStore_def)
  show ?thesis
    by (rule exI [of _ t1], rule exI [of _ s1]) (simp only: r(1,2,3) fee q q0 simp_thms)
qed

section \<open>Renew\<close>

lemma renew_InrE:
  assumes "renew tz s uid tid now = (Inr t', s')"
  obtains i user where
    "findIndex (\<lambda>t. tx_id t = tid) (transactions s) = Some i"
    "find (\<lambda>u. user_id u = uid) (users s) = Some user"
    "userId (transactions s ! i) = uid"
    "status (transactions s ! i) = BORROWED"
    "t' = (transactions s ! i)
            \<lparr>dueDate := calculateDueDate tz (dueDate (transactions s ! i))
                           (membership_name (membershipType user)),
             renewalCount := renewalCount (transactions s ! i) + 1\<rparr>"
    "s' = s\<lparr>transactions := (transactions s)[i := t']\<rparr>"
  using assms that
  by (auto simp: renew_def Let_def split: option.splits if_splits)






lemmas run_defs = run_def renewalStore_def initialStore_def renew_def Let_def
  membership_name_def borrowPeriodDays_def getProperty_def borrowPeriods_def
  calculateDueDate_def msPerDay_def setDate_getDate_plus_def LocalTime_def UTC_def Day_def
  TimeWithinDay_def MakeDate_def TimeClip_def utcHost_def easternHost_def


text \<open>
  C7. A Renew of a transaction at a time after its due date fails and leaves the
  store, and so the transaction and its renewalCount, unchanged. The response is that
  of the first check that fails, in the handler's order: Forbidden when the caller does
  not own the transaction, NotRenewable when it is not BORROWED, RenewalLimitReached
  when it has been renewed three times, and Overdue otherwise. At a time not after the
  due date the response is not Overdue.
\<close>

theorem renew_overdue_blocked:
  assumes i: "findIndex (\<lambda>t. tx_id t = tid) (transactions s) = Some i"
    and d: "dueDate (transactions s ! i) = Date d"
  shows "(d < now \<longrightarrow>
            renew tz s uid tid now =
              (Inl (if userId (transactions s ! i) \<noteq> uid then Forbidden
                    else if status (transactions s ! i) \<noteq> BORROWED then NotRenewable
                    else if 3 \<le> renewalCount (transactions s ! i) then RenewalLimitReached
                    else Overdue), s)) \<and>
         (now \<le> d \<longrightarrow> fst (renew tz s uid tid now) \<noteq> Inl Overdue)"
  using i d by (simp add: renew_def Let_def split: option.splits)

theorem renew_overdue_blocked_witness:
  "renew utcHost initialStore ''user1'' ''trans1'' 1708387200000 = (Inl Overdue, initialStore) \<and>
   renew utcHost initialStore ''user2'' ''trans1'' 1708387200000 = (Inl Forbidden, initialStore) \<and>
   fst (renew utcHost initialStore ''user1'' ''trans1'' 1707868800000) \<noteq> Inl Overdue"
proof -
  have i: "findIndex (\<lambda>t. tx_id t = ''trans1'') (transactions initialStore) = Some 0"
    by (simp add: initialStore_def)
  have d: "dueDate (transactions initialStore ! 0) = Date 1707868800000"
    by (simp add: initialStore_def)
  have pre: "userId (transactions initialStore ! 0) = ''user1''"
    "status (transactions initialStore ! 0) = BORROWED"
    "renewalCount (transactions initialStore ! 0) = 0"
    by (simp_all add: initialStore_def)
  from renew_overdue_blocked [OF i d, where now = 1708387200000 and uid = "''user1''"
      and tz = utcHost] pre
  have a: "renew utcHost initialStore ''user1'' ''trans1'' 1708387200000 =
      (Inl Overdue, initialStore)"
    by simp
  from renew_overdue_blocked [OF i d, where now = 1708387200000 and uid = "''user2''"
      and tz = utcHost] pre
  have b: "renew utcHost initialStore ''user2'' ''trans1'' 1708387200000 =
      (Inl Forbidden, initialStore)"
    by simp
  from renew_overdue_blocked [OF i d, where now = 1707868800000 and uid = "''user1''"
      and tz = utcHost]
  have c: "fst (renew utcHost initialStore ''user1'' ''trans1'' 1707868800000) \<noteq> Inl Overdue"
    by simp
  from a b c show ?thesis by simp
qed

text \<open>
  The first loan of the initial arrays, renewed three times before it is due and then
  renewed once more after its due date: the response is RenewalLimitReached, not
  Overdue.
\<close>

theorem renew_past_due_limit_counterexample:
  "dueDate (transactions (run utcHost initialStore
        [(Renew ''user1'' ''trans1'', 1706745600000),
         (Renew ''user1'' ''trans1'', 1706745601000),
         (Renew ''user1'' ''trans1'', 1706745602000)]) ! 0) = Date 1715644800000 \<and>
   renewalCount (transactions (run utcHost initialStore
        [(Renew ''user1'' ''trans1'', 1706745600000),
         (Renew ''user1'' ''trans1'', 1706745601000),
         (Renew ''user1'' ''trans1'', 1706745602000)]) ! 0) = 3 \<and>
   (1715644800000 :: int) < 1735689600000 \<and>
   renew utcHost (run utcHost initialStore
        [(Renew ''user1'' ''trans1'', 1706745600000),
         (Renew ''user1'' ''trans1'', 1706745601000),
         (Renew ''user1'' ''trans1'', 1706745602000)]) ''user1'' ''trans1'' 1735689600000 =
     (Inl RenewalLimitReached,
      run utcHost initialStore
        [(Renew ''user1'' ''trans1'', 1706745600000),
         (Renew ''user1'' ''trans1'', 1706745601000),
         (Renew ''user1'' ''trans1'', 1706745602000)])"
  by (simp add: run_defs)

text \<open>
  C10. When every check of Renew passes and the user array has no record with the
  caller's id, the handler's read of \<^verbatim>\<open>user.membershipType\<close> throws, and the
  response is the generic 500 of the \<^verbatim>\<open>catch\<close> branch, with the store unchanged.
\<close>

theorem renew_missing_member_internal_error:
  assumes "findIndex (\<lambda>t. tx_id t = tid) (transactions s) = Some i"
    and "userId (transactions s ! i) = uid"
    and "status (transactions s ! i) = BORROWED"
    and "renewalCount (transactions s ! i) < 3"
    and "\<not> date_lt (dueDate (transactions s ! i)) (Date now)"
    and "find (\<lambda>u. user_id u = uid) (users s) = None"
  shows "renew tz s uid tid now = (Inl InternalError, s) \<and> statusCode InternalError = 500"
  using assms by (simp add: renew_def Let_def)

theorem renew_missing_member_internal_error_witness:
  "renew utcHost orphanStore ''user1'' ''trans1'' 1706745600000 = (Inl InternalError, orphanStore) \<and>
   statusCode InternalError = 500"
proof -
  have "findIndex (\<lambda>t. tx_id t = ''trans1'') (transactions orphanStore) = Some 0"
    and "userId (transactions orphanStore ! 0) = ''user1''"
    and "status (transactions orphanStore ! 0) = BORROWED"
    and "renewalCount (transactions orphanStore ! 0) < 3"
    and "\<not> date_lt (dueDate (transactions orphanStore ! 0)) (Date 1706745600000)"
    and "find (\<lambda>u. user_id u = ''user1'') (users orphanStore) = None"
    by (simp_all add: orphanStore_def initialStore_def)
  then show ?thesis by (rule renew_missing_member_internal_error)
qed

section \<open>Book availability over runs of requests\<close>

lemma length_filter_update:
  "i < length xs \<Longrightarrow>
     length (filter P (xs[i := y])) + (if P (xs ! i) then 1 else 0) =
     length (filter P xs) + (if P y then 1 else 0)"
proof (induction xs arbitrary: i)
  case Nil
  then show ?case by simp
next
  case (Cons x xs)
  show ?case
  proof (cases i)
    case 0
    then show ?thesis by simp
  next
    case (Suc k)
    with Cons.prems have "k < length xs" by simp
    from Cons.IH [OF this] Suc show ?thesis by simp
  qed
qed

lemma books_update:
  assumes dist: "distinct (map book_id bs)"
    and j: "j < length bs"
    and id: "book_id y = book_id (bs ! j)"
    and new: "Q y"
    and others: "\<And>b. b \<in> set bs \<Longrightarrow> book_id b \<noteq> book_id y \<Longrightarrow> Q b"
  shows "distinct (map book_id (bs[j := y])) \<and> (\<forall>b \<in> set (bs[j := y]). Q b)"
proof
  have "map book_id (bs[j := y]) = (map book_id bs)[j := book_id y]"
    by (simp add: map_update)
  also have "\<dots> = map book_id bs"
    using id j by (simp add: list_update_same_conv)
  finally show "distinct (map book_id (bs[j := y]))" using dist by simp
next
  show "\<forall>b \<in> set (bs[j := y]). Q b"
  proof
    fix b assume "b \<in> set (bs[j := y])"
    then obtain k where k: "k < length bs" "b = bs[j := y] ! k"
      by (auto simp: in_set_conv_nth)
    show "Q b"
    proof (cases "k = j")
      case True
      with k j new show ?thesis by simp
    next
      case False
      with k have b: "b = bs ! k" by simp
      have "book_id (bs ! k) \<noteq> book_id (bs ! j)"
        using dist k(1) j False by (auto simp: distinct_conv_nth)
      then have "book_id b \<noteq> book_id y" using b id by simp
      moreover have "b \<in> set bs" using b k(1) by simp
      ultimately show ?thesis by (rule others [rotated])
    qed
  qed
qed

lemma borrow_failure_or_success:
  "(\<exists>e. borrow tz s uid bid reqNotes now = (Inl e, s)) \<or>
   (\<exists>t s'. borrow tz s uid bid reqNotes now = (Inr t, s'))"
  by (auto simp: borrow_def Let_def find_eq_findIndex split: option.splits)

lemma borrow_success_available:
  assumes "borrow tz s uid bid reqNotes now = (Inr t, s')"
    and "find (\<lambda>b. book_id b = bid) (books s) = Some book"
  shows "0 < availableQuantity book"
  using assms by (auto simp: borrow_def Let_def split: option.splits if_splits)

lemma ledger_ok_borrow:
  assumes ok: "ledger_ok s"
  shows "ledger_ok (snd (borrow tz s uid bid reqNotes now))"
proof -
  from borrow_failure_or_success [of tz s uid bid reqNotes now]
  show ?thesis
  proof
    assume "\<exists>e. borrow tz s uid bid reqNotes now = (Inl e, s)"
    with ok show ?thesis by auto
  next
    assume "\<exists>t s'. borrow tz s uid bid reqNotes now = (Inr t, s')"
    then obtain t s' where r: "borrow tz s uid bid reqNotes now = (Inr t, s')" by blast
    from borrow_success_form [OF r] obtain book user j where
      b: "find (\<lambda>b. book_id b = bid) (books s) = Some book"
      and bi: "findIndex (\<lambda>b. book_id b = bid) (books s) = Some j"
      and tb: "bookId t = bid" and ts: "status t = BORROWED"
      and s': "s' = s\<lparr>transactions := transactions s @ [t],
                  books := (books s)[j :=
                     book\<lparr>availableQuantity := availableQuantity book - 1\<rparr>]\<rparr>"
      by (elim exE conjE) simp
    from findIndex_SomeD [OF bi] have j: "j < length (books s)" and jid: "book_id (books s ! j) = bid"
      by simp_all
    from b bi have bj: "books s ! j = book" by (simp add: find_eq_findIndex)
    from borrow_success_available [OF r b] have pos: "0 < availableQuantity book" .
    have out: "\<And>x. outstanding s' x = outstanding s x + (if x = bid then 1 else 0)"
      by (simp add: outstanding_def s' tb ts)
    let ?y = "book\<lparr>availableQuantity := availableQuantity book - 1\<rparr>"
    let ?Q = "\<lambda>b. 0 \<le> availableQuantity b \<and>
                 availableQuantity b + int (outstanding s' (book_id b)) \<le> totalQuantity b"
    from ok have dist: "distinct (map book_id (books s))"
      and inv: "\<And>b. b \<in> set (books s) \<Longrightarrow> 0 \<le> availableQuantity b \<and>
                 availableQuantity b + int (outstanding s (book_id b)) \<le> totalQuantity b"
      by (simp_all add: ledger_ok_def)
    have mem: "book \<in> set (books s)" using bj j by (metis nth_mem)
    have "distinct (map book_id ((books s)[j := ?y])) \<and> (\<forall>b \<in> set ((books s)[j := ?y]). ?Q b)"
    proof (rule books_update [OF dist j])
      show "book_id ?y = book_id (books s ! j)" using bj by simp
      show "?Q ?y" using inv [OF mem] pos out jid bj by simp
      fix b assume "b \<in> set (books s)" "book_id b \<noteq> book_id ?y"
      then show "?Q b" using inv [of b] out jid bj by simp
    qed
    then have "ledger_ok s'" by (simp add: ledger_ok_def s')
    with r show ?thesis by simp
  qed
qed

lemma outstanding_returned:
  assumes len: "i < length (transactions s)"
    and st: "status (transactions s ! i) \<noteq> RETURNED"
    and t1: "status t1 = RETURNED" "bookId t1 = bookId (transactions s ! i)"
    and tx: "transactions s' = (transactions s)[i := t1]"
  shows "outstanding s' x + (if x = bookId (transactions s ! i) then 1 else 0) = outstanding s x"
  using length_filter_update [OF len, of "\<lambda>t. bookId t = x \<and> status t \<noteq> RETURNED" t1]
  by (simp add: outstanding_def tx t1 st split: if_splits)

lemma outstanding_renewed:
  assumes len: "i < length (transactions s)"
    and t1: "status t1 = status (transactions s ! i)" "bookId t1 = bookId (transactions s ! i)"
    and tx: "transactions s' = (transactions s)[i := t1]"
  shows "outstanding s' x = outstanding s x"
  using length_filter_update [OF len, of "\<lambda>t. bookId t = x \<and> status t \<noteq> RETURNED" t1]
  by (simp add: outstanding_def tx t1 split: if_splits)

lemma ledger_ok_return_book:
  assumes ok: "ledger_ok s"
  shows "ledger_ok (snd (return_book s uid tid cond reqNotes now))"
proof (cases "findIndex (\<lambda>t. tx_id t = tid) (transactions s)")
  case None
  with ok show ?thesis by (simp add: return_book_def)
next
  case (Some i)
  let ?t = "transactions s ! i"
  from findIndex_SomeD [OF Some] have len: "i < length (transactions s)" by simp
  from ok have dist: "distinct (map book_id (books s))"
    and inv: "\<And>b. b \<in> set (books s) \<Longrightarrow> 0 \<le> availableQuantity b \<and>
               availableQuantity b + int (outstanding s (book_id b)) \<le> totalQuantity b"
    by (simp_all add: ledger_ok_def)
  show ?thesis
  proof (cases "userId ?t = uid \<and> status ?t \<noteq> RETURNED")
    case False
    with ok Some show ?thesis by (auto simp: return_book_def Let_def)
  next
    case True
    let ?t1 = "?t\<lparr>returnDate := Some (Date now), status := RETURNED,
                  lateFee := calculateLateFee (dueDate ?t) (Date now),
                  returnCondition := Some (case cond of None \<Rightarrow> GOOD | Some c \<Rightarrow> c),
                  returnNotes := Some (orEmpty reqNotes)\<rparr>"
    show ?thesis
    proof (cases "findIndex (\<lambda>b. book_id b = bookId ?t) (books s)")
      case None
      let ?s' = "s\<lparr>transactions := (transactions s)[i := ?t1]\<rparr>"
      have r: "snd (return_book s uid tid cond reqNotes now) = ?s'"
        using Some True None by (simp add: return_book_def Let_def find_eq_findIndex)
      have out: "\<And>x. outstanding ?s' x \<le> outstanding s x"
        using outstanding_returned [OF len, of ?t1 ?s'] True
        by (simp split: if_splits) (metis le_add1)
      have "ledger_ok ?s'"
        unfolding ledger_ok_def
      proof (intro conjI ballI)
        show "distinct (map book_id (books ?s'))" using dist by simp
      next
        fix b assume "b \<in> set (books ?s')"
        then have "b \<in> set (books s)" by simp
        from inv [OF this] show "0 \<le> availableQuantity b" by simp
      next
        fix b assume "b \<in> set (books ?s')"
        then have "b \<in> set (books s)" by simp
        from inv [OF this] out [of "book_id b"]
        show "availableQuantity b + int (outstanding ?s' (book_id b)) \<le> totalQuantity b"
          by linarith
      qed
      with r show ?thesis by simp
    next
      case (Some j)
      note bj = Some
      let ?y = "(books s ! j)\<lparr>availableQuantity := availableQuantity (books s ! j) + 1\<rparr>"
      let ?s' = "s\<lparr>transactions := (transactions s)[i := ?t1], books := (books s)[j := ?y]\<rparr>"
      from True have own: "userId ?t = uid" and st: "status ?t \<noteq> RETURNED" by simp_all
      have r: "return_book s uid tid cond reqNotes now = (Inr ?t1, ?s')"
        by (rule return_book_success [OF \<open>findIndex (\<lambda>t. tx_id t = tid) (transactions s) = Some i\<close> own st bj])
      from findIndex_SomeD [OF bj] have j: "j < length (books s)"
        and jid: "book_id (books s ! j) = bookId ?t" by simp_all
      have out: "\<And>x. outstanding ?s' x + (if x = bookId ?t then 1 else 0) = outstanding s x"
        using outstanding_returned [OF len st, of ?t1 ?s'] by simp
      let ?Q = "\<lambda>b. 0 \<le> availableQuantity b \<and>
                 availableQuantity b + int (outstanding ?s' (book_id b)) \<le> totalQuantity b"
      have mem: "books s ! j \<in> set (books s)" using j by simp
      have "distinct (map book_id ((books s)[j := ?y])) \<and> (\<forall>b \<in> set ((books s)[j := ?y]). ?Q b)"
      proof (rule books_update [OF dist j])
        show "book_id ?y = book_id (books s ! j)" by simp
        show "?Q ?y" using inv [OF mem] out [of "bookId ?t"] jid by simp
        fix b assume "b \<in> set (books s)" "book_id b \<noteq> book_id ?y"
        then show "?Q b" using inv [of b] out [of "book_id b"] jid by simp
      qed
      then have "ledger_ok ?s'" by (simp add: ledger_ok_def)
      with r show ?thesis by simp
    qed
  qed
qed

lemma renew_failure_or_success:
  "(\<exists>e. renew tz s uid tid now = (Inl e, s)) \<or> (\<exists>t s'. renew tz s uid tid now = (Inr t, s'))"
  by (auto simp: renew_def Let_def split: option.splits)

lemma ledger_ok_renew:
  assumes ok: "ledger_ok s"
  shows "ledger_ok (snd (renew tz s uid tid now))"
proof -
  from renew_failure_or_success [of tz s uid tid now]
  show ?thesis
  proof
    assume "\<exists>e. renew tz s uid tid now = (Inl e, s)"
    with ok show ?thesis by auto
  next
    assume "\<exists>t s'. renew tz s uid tid now = (Inr t, s')"
    then obtain t' s' where r: "renew tz s uid tid now = (Inr t', s')" by blast
    then obtain i user where
      i: "findIndex (\<lambda>t. tx_id t = tid) (transactions s) = Some i"
      and "find (\<lambda>u. user_id u = uid) (users s) = Some user"
      and "userId (transactions s ! i) = uid"
      and "status (transactions s ! i) = BORROWED"
      and t': "t' = (transactions s ! i)
                  \<lparr>dueDate := calculateDueDate tz (dueDate (transactions s ! i))
                                 (membership_name (membershipType user)),
                   renewalCount := renewalCount (transactions s ! i) + 1\<rparr>"
      and s': "s' = s\<lparr>transactions := (transactions s)[i := t']\<rparr>"
      by (rule renew_InrE)
    from findIndex_SomeD [OF i] have len: "i < length (transactions s)" by simp
    have "\<And>x. outstanding s' x = outstanding s x"
      by (rule outstanding_renewed [OF len, of t']) (simp_all add: t' s')
    moreover have "books s' = books s" by (simp add: s')
    ultimately have "ledger_ok s'" using ok by (simp add: ledger_ok_def)
    with r show ?thesis by simp
  qed
qed

lemma ledger_ok_handle: "ledger_ok s \<Longrightarrow> ledger_ok (handle tz s rq)"
proof (cases rq)
  case (Pair req now)
  assume "ledger_ok s"
  then show ?thesis unfolding Pair
    by (cases req) (simp_all add: ledger_ok_borrow ledger_ok_return_book ledger_ok_renew)
qed

lemma ledger_ok_run: "ledger_ok s \<Longrightarrow> ledger_ok (run tz s reqs)"
  unfolding run_def
  by (induction reqs arbitrary: s) (simp_all add: ledger_ok_handle)

lemma ledger_ok_initialStore: "ledger_ok initialStore"
  by (simp add: ledger_ok_def initialStore_def outstanding_def)

text \<open>
  C2. The return handler adds one to availableQuantity without a clamp. From a
  consistent ledger, as the initial arrays are, every run of Borrow, Return and Renew
  requests leaves the ledger consistent, and so every book has
  \<open>0 \<le> availableQuantity \<le> totalQuantity\<close> after every request.
\<close>

theorem availability_within_total:
  assumes "ledger_ok s"
  shows "ledger_ok (run tz s reqs) \<and>
         (\<forall>b \<in> set (books (run tz s reqs)).
            0 \<le> availableQuantity b \<and> availableQuantity b \<le> totalQuantity b)"
proof -
  from assms have ok: "ledger_ok (run tz s reqs)" by (rule ledger_ok_run)
  have "\<forall>b \<in> set (books (run tz s reqs)).
            0 \<le> availableQuantity b \<and> availableQuantity b \<le> totalQuantity b"
  proof
    fix b assume "b \<in> set (books (run tz s reqs))"
    with ok have "0 \<le> availableQuantity b"
      "availableQuantity b + int (outstanding (run tz s reqs) (book_id b)) \<le> totalQuantity b"
      by (simp_all add: ledger_ok_def)
    then show "0 \<le> availableQuantity b \<and> availableQuantity b \<le> totalQuantity b" by simp
  qed
  with ok show ?thesis by simp
qed

theorem availability_within_total_witness:
  "ledger_ok initialStore \<and>
   ledger_ok (run utcHost initialStore
        [(Borrow ''user2'' ''book3'' None, 1706745600000),
         (Borrow ''user1'' ''book3'' None, 1706745600001),
         (Return ''user1'' ''trans1'' None None, 1708387200000),
         (Return ''user1'' ''trans1'' None None, 1708387200001),
         (Return ''user2'' ''trans3'' (Some FAIR) None, 1708387200002)]) \<and>
   map availableQuantity (books (run utcHost initialStore
        [(Borrow ''user2'' ''book3'' None, 1706745600000),
         (Borrow ''user1'' ''book3'' None, 1706745600001),
         (Return ''user1'' ''trans1'' None None, 1708387200000),
         (Return ''user1'' ''trans1'' None None, 1708387200001),
         (Return ''user2'' ''trans3'' (Some FAIR) None, 1708387200002)])) = [4, 2, 1] \<and>
   map totalQuantity (books (run utcHost initialStore
        [(Borrow ''user2'' ''book3'' None, 1706745600000),
         (Borrow ''user1'' ''book3'' None, 1706745600001),
         (Return ''user1'' ''trans1'' None None, 1708387200000),
         (Return ''user1'' ''trans1'' None None, 1708387200001),
         (Return ''user2'' ''trans3'' (Some FAIR) None, 1708387200002)])) = [5, 4, 3]"
proof -
  let ?reqs = "[(Borrow ''user2'' ''book3'' None, 1706745600000),
         (Borrow ''user1'' ''book3'' None, 1706745600001),
         (Return ''user1'' ''trans1'' None None, 1708387200000),
         (Return ''user1'' ''trans1'' None None, 1708387200001),
         (Return ''user2'' ''trans3'' (Some FAIR) None, 1708387200002)]"
  have ok: "ledger_ok initialStore" by (rule ledger_ok_initialStore)
  have ev: "map availableQuantity (books (run utcHost initialStore ?reqs)) = [4, 2, 1]"
    "map totalQuantity (books (run utcHost initialStore ?reqs)) = [5, 4, 3]"
    by (simp_all add: run_def initialStore_def eval_defs calculateLateFee_div)
  from availability_within_total [OF ok, of utcHost ?reqs]
  have "ledger_ok (run utcHost initialStore ?reqs)" by (rule conjunct1)
  with ok ev show ?thesis by simp
qed

text \<open>
  In a ledger where \<open>availableQuantity = totalQuantity = 1\<close> while a loan of the book
  is open, the return succeeds and leaves \<open>availableQuantity = 2\<close>: nothing clamps
  the increment.
\<close>

theorem return_unclamped_counterexample:
  "map availableQuantity (books overfullStore) = [1] \<and>
   map totalQuantity (books overfullStore) = [1] \<and>
   fst (return_book overfullStore ''user1'' ''trans1'' None None 1706745600000) =
     Inr ((transactions overfullStore ! 0)
            \<lparr>returnDate := Some (Date 1706745600000), status := RETURNED,
             returnCondition := Some GOOD, returnNotes := Some []\<rparr>) \<and>
   map availableQuantity
     (books (run utcHost overfullStore [(Return ''user1'' ''trans1'' None None, 1706745600000)])) = [2] \<and>
   map totalQuantity
     (books (run utcHost overfullStore [(Return ''user1'' ''trans1'' None None, 1706745600000)])) = [1]"
  by (simp add: run_def overfullStore_def eval_defs calculateLateFee_def)

end
